theory Spec2Isabelle
  imports Main "HOL-Library.Sublist" "HOL-Library.AList"
begin

section \<open>JavaScript values\<close>

text \<open>
  A JavaScript string is a sequence of UTF-16 code units; a code unit is modelled by its
  number. \<open>js\<close> turns an ASCII literal into such a sequence.
\<close>

type_synonym jsstring = "nat list"

definition js :: "string \<Rightarrow> jsstring" where
  "js s = map of_char s"

text \<open>The exceptions the platform raises in the code modelled here.\<close>

datatype jsexn = SyntaxError | TypeError

text \<open>
  Values. A number is kept as the exact decimal \<open>m * 10 ^ e\<close> of its JSON literal.
  \<open>JObj\<close> lists the own properties of a plain object in the order they were created;
  the first binding of a name counts, and the objects built here never repeat a name.
  \<open>JError v\<close> is the object built by
  \<^verbatim>\<open>new Error(v)\<close>, \<open>JExn x\<close> an exception object raised by the platform.
\<close>

datatype jsval =
    JUndefined
  | JNull
  | JBool bool
  | JNum int int
  | JStr jsstring
  | JArr "jsval list"
  | JObj "(jsstring \<times> jsval) list"
  | JError jsval
  | JExn jsexn

text \<open>
  Truthiness (ToBoolean): \<^verbatim>\<open>undefined\<close>, \<^verbatim>\<open>null\<close>, \<^verbatim>\<open>false\<close>, the empty string and
  a number that is zero as a double are falsy. A decimal is zero as a double when its
  mantissa is zero or when it is at most \<open>2 ^ - 1075\<close> in magnitude (it then rounds to zero).
\<close>

fun truthy :: "jsval \<Rightarrow> bool" where
  "truthy JUndefined = False"
| "truthy JNull = False"
| "truthy (JBool b) = b"
| "truthy (JNum m e) = (m \<noteq> 0 \<and> (0 \<le> e \<or> 10 ^ nat (- e) < \<bar>m\<bar> * 2 ^ 1075))"
| "truthy (JStr s) = (s \<noteq> [])"
| "truthy (JArr xs) = True"
| "truthy (JObj kvs) = True"
| "truthy (JError v) = True"
| "truthy (JExn x) = True"

text \<open>
  Reading the own property \<open>k\<close> of a plain object (\<^verbatim>\<open>undefined\<close> when it has none), and
  the assignment \<^verbatim>\<open>o[k] = v\<close>, which keeps the place of a property the object already has.
\<close>

type_synonym jsobject = "(jsstring \<times> jsval) list"

definition obj_get :: "jsobject \<Rightarrow> jsstring \<Rightarrow> jsval" where
  "obj_get kvs k = (case map_of kvs k of None \<Rightarrow> JUndefined | Some v \<Rightarrow> v)"

definition obj_set :: "jsobject \<Rightarrow> jsstring \<Rightarrow> jsval \<Rightarrow> jsobject" where
  "obj_set kvs k v = AList.update k v kvs"

text \<open>
  The member expression \<^verbatim>\<open>v.k\<close> for the property names the client reads (\<open>key\<close>,
  \<open>userId\<close>, \<open>username\<close>, \<open>error\<close>, \<open>data\<close>): a TypeError on \<^verbatim>\<open>undefined\<close> and
  \<^verbatim>\<open>null\<close>; otherwise the own property of a plain object, and \<^verbatim>\<open>undefined\<close> on every
  other value (none of them has or inherits a property of these names).
\<close>

fun property :: "jsval \<Rightarrow> jsstring \<Rightarrow> jsval" where
  "property (JObj kvs) k = obj_get kvs k"
| "property v k = JUndefined"

definition member :: "jsval \<Rightarrow> jsstring \<Rightarrow> jsexn + jsval" where
  "member v k = (if v = JUndefined \<or> v = JNull then Inl TypeError else Inr (property v k))"

section \<open>Session state\<close>

text \<open>The three fields \<^verbatim>\<open>this.key\<close>, \<^verbatim>\<open>this.userId\<close>, \<^verbatim>\<open>this.username\<close> of a client.\<close>

record client =
  key :: jsval
  userId :: jsval
  username :: jsval

text \<open>
  \<^verbatim>\<open>settings && settings.k\<close>: the left operand when it is falsy, otherwise the property
  (the guard excludes \<^verbatim>\<open>undefined\<close> and \<^verbatim>\<open>null\<close>, so reading it cannot raise).
\<close>

definition and_member :: "jsval \<Rightarrow> jsstring \<Rightarrow> jsval" where
  "and_member settings k = (if truthy settings then property settings k else settings)"

text \<open>\<^verbatim>\<open>authorize: function (settings)\<close> of the current client.\<close>

definition authorize :: "client \<Rightarrow> jsval \<Rightarrow> client" where
  "authorize this settings =
     this\<lparr>key := and_member settings (js ''key''),
          userId := and_member settings (js ''userId''),
          username := and_member settings (js ''username'')\<rparr>"

text \<open>
  \<^verbatim>\<open>function Vineapple (settings) { this.authorize(settings); }\<close>: a new object has no
  field yet, and \<open>authorize\<close> writes all three.
\<close>

definition Vineapple :: "jsval \<Rightarrow> client" where
  "Vineapple settings =
     authorize \<lparr>key = JUndefined, userId = JUndefined, username = JUndefined\<rparr> settings"

text \<open>A field is present when it holds a truthy value (the test \<^verbatim>\<open>if (this.key)\<close>).\<close>

definition all_present :: "client \<Rightarrow> bool" where
  "all_present c = (truthy (key c) \<and> truthy (userId c) \<and> truthy (username c))"

definition all_absent :: "client \<Rightarrow> bool" where
  "all_absent c = (\<not> truthy (key c) \<and> \<not> truthy (userId c) \<and> \<not> truthy (username c))"

section \<open>Identifier repair\<close>

text \<open>
  \<^verbatim>\<open>var VINE_ID_SEARCH = /("(?:(?:(?:comment|like|post|tag|user|venue)I)|i)d":\s*)(\d*)(,)?/g;\<close>
  \<^verbatim>\<open>var VINE_ID_REPLACE = '$1"$2"$3';\<close>

  The character classes of the expression: \<^verbatim>\<open>\d\<close> is an ASCII digit, \<^verbatim>\<open>\s\<close> is white space
  or a line terminator of ECMAScript (U+180E, which older engines count as white space,
  is left out).
\<close>

definition is_digit :: "nat \<Rightarrow> bool" where
  "is_digit c = (48 \<le> c \<and> c \<le> 57)"

definition is_space :: "nat \<Rightarrow> bool" where
  "is_space c =
     (c \<in> set [9, 10, 11, 12, 13, 32, 160, 5760, 8232, 8233, 8239, 8287, 12288, 65279]
      \<or> (8192 \<le> c \<and> c \<le> 8202))"

text \<open>
  The literal part of the first group is one of seven texts, in the order of the
  alternatives: \<^verbatim>\<open>"commentId":\<close>, \<^verbatim>\<open>"likeId":\<close>, \<^verbatim>\<open>"postId":\<close>, \<^verbatim>\<open>"tagId":\<close>,
  \<^verbatim>\<open>"userId":\<close>, \<^verbatim>\<open>"venueId":\<close>, \<^verbatim>\<open>"id":\<close>.
\<close>

definition VINE_ID_FIELDS :: "jsstring list" where
  \<open>VINE_ID_FIELDS =
     map (\<lambda>n. js (''"'' @ n @ ''Id":''))
       [''comment'', ''like'', ''post'', ''tag'', ''user'', ''venue'']
     @ [js ''"id":'']\<close>

text \<open>
  One match of an expression \<^verbatim>\<open>(field\s*)(\d*)(,)?\<close> at the start of \<open>s\<close>, where
  \<open>field\<close> is one of \<open>flds\<close>: the three groups and the text after the match. Each
  quantifier is greedy and nothing follows the last one, so the first attempt of the
  matcher (the longest run of white space, the longest run of digits, the comma when
  there is one) succeeds whenever the literal part matches. \<open>comma\<close> says whether the
  expression has the third group.
\<close>

definition match_at :: "jsstring list \<Rightarrow> bool \<Rightarrow> jsstring \<Rightarrow> (jsstring \<times> jsstring \<times> jsstring \<times> jsstring) option" where
  "match_at flds comma s =
     (case find (\<lambda>f. prefix f s) flds of
        None \<Rightarrow> None
      | Some f \<Rightarrow>
          (let r0 = drop (length f) s;
               ws = takeWhile is_space r0;
               r1 = dropWhile is_space r0;
               ds = takeWhile is_digit r1;
               r2 = dropWhile is_digit r1
           in if comma \<and> take 1 r2 = [44]
              then Some (f @ ws, ds, [44], drop 1 r2)
              else Some (f @ ws, ds, [], r2)))"

lemma match_at_shorter:
  "match_at flds comma (c # cs) = Some (g1, g2, g3, r) \<Longrightarrow> length r \<le> length cs \<or> [] \<in> set flds"
proof -
  assume a: "match_at flds comma (c # cs) = Some (g1, g2, g3, r)"
  then obtain f where f: "find (\<lambda>f. prefix f (c # cs)) flds = Some f"
    by (auto simp: match_at_def split: option.splits)
  then have fin: "f \<in> set flds"
    by (auto simp: find_Some_iff)
  show ?thesis
  proof (cases "f = []")
    case True
    with fin show ?thesis by simp
  next
    case False
    then have d: "length (drop (length f) (c # cs)) \<le> length cs"
      by (cases f) auto
    have w: "length (dropWhile P xs) \<le> length xs" for P and xs :: jsstring
      by (induction xs) auto
    let ?r2 = "dropWhile is_digit (dropWhile is_space (drop (length f) (c # cs)))"
    have r2: "length ?r2 \<le> length cs"
      using d w [of is_digit "dropWhile is_space (drop (length f) (c # cs))"]
        w [of is_space "drop (length f) (c # cs)"] by linarith
    from a f have "r = ?r2 \<or> r = drop 1 ?r2"
      by (auto simp: match_at_def Let_def split: if_splits)
    with r2 show ?thesis by auto
  qed
qed

text \<open>
  \<^verbatim>\<open>s.replace(search, '$1"$2"$3')\<close> for a global expression of that shape: the matches
  are taken from left to right, each search starting where the last match ended; a
  match is replaced by its first group, the second group between two quotation marks,
  and the third group. A field is never empty, so no match is; the test for an empty
  field only serves the proof that the function terminates.
\<close>

function replace_ids :: "jsstring list \<Rightarrow> bool \<Rightarrow> jsstring \<Rightarrow> jsstring" where
  "replace_ids flds comma [] = []"
| "replace_ids flds comma (c # cs) =
     (if [] \<in> set flds then c # cs
      else (case match_at flds comma (c # cs) of
              None \<Rightarrow> c # replace_ids flds comma cs
            | Some (g1, g2, g3, r) \<Rightarrow> g1 @ [34] @ g2 @ [34] @ g3 @ replace_ids flds comma r))"
  by pat_completeness auto
termination
  by (relation "measure (\<lambda>(flds, comma, s). length s)")
     (auto dest: match_at_shorter)

text \<open>\<^verbatim>\<open>body.replace(VINE_ID_SEARCH, VINE_ID_REPLACE)\<close> on a string.\<close>

definition VINE_ID_REPLACE :: "jsstring \<Rightarrow> jsstring" where
  "VINE_ID_REPLACE s = replace_ids VINE_ID_FIELDS True s"

section \<open>JSON.parse\<close>

text \<open>
  The platform's \<^verbatim>\<open>JSON.parse\<close> on a string, after the JSON grammar of ECMAScript 5
  (section 15.12.1): a lexer for the tokens, then a parser for values. \<open>None\<close> stands for
  the SyntaxError it raises.
\<close>

datatype token = LBrace | RBrace | LBracket | RBracket | Colon | Comma | Literal jsval

definition is_json_space :: "nat \<Rightarrow> bool" where
  "is_json_space c = (c \<in> set [9, 10, 13, 32])"

definition hex_digit :: "nat \<Rightarrow> nat option" where
  "hex_digit c =
     (if 48 \<le> c \<and> c \<le> 57 then Some (c - 48)
      else if 65 \<le> c \<and> c \<le> 70 then Some (c - 55)
      else if 97 \<le> c \<and> c \<le> 102 then Some (c - 87)
      else None)"

text \<open>The code unit of \<^verbatim>\<open>\uXXXX\<close>, from its four hexadecimal digits.\<close>

definition hex4 :: "jsstring \<Rightarrow> nat option" where
  "hex4 s =
     (case map hex_digit s of
        [Some a, Some b, Some c, Some d] \<Rightarrow> Some (((a * 16 + b) * 16 + c) * 16 + d)
      | _ \<Rightarrow> None)"

text \<open>The character a one-letter escape stands for: one of \<^verbatim>\<open>" / \ b f n r t\<close>.\<close>

definition unescape :: "nat \<Rightarrow> nat option" where
  "unescape c =
     (if c = 34 \<or> c = 47 \<or> c = 92 then Some c
      else if c = 98 then Some 8
      else if c = 102 then Some 12
      else if c = 110 then Some 10
      else if c = 114 then Some 13
      else if c = 116 then Some 9
      else None)"

text \<open>
  A string token, read after its opening quotation mark: the string it denotes and the
  number of code units read, the closing quotation mark included. A control character
  (below U+0020) may not stand in a string.
\<close>

fun lex_string :: "jsstring \<Rightarrow> (jsstring \<times> nat) option" where
  "lex_string [] = None"
| "lex_string (c # cs) =
     (if c = 34 then Some ([], 1)
      else if c < 32 then None
      else if c = 92 then
        (case cs of
           [] \<Rightarrow> None
         | e # cs' \<Rightarrow>
             if e = 117 then
               (case hex4 (take 4 cs') of
                  None \<Rightarrow> None
                | Some u \<Rightarrow> map_option (\<lambda>(s, n). (u # s, n + 6)) (lex_string (drop 4 cs')))
             else
               (case unescape e of
                  None \<Rightarrow> None
                | Some x \<Rightarrow> map_option (\<lambda>(s, n). (x # s, n + 2)) (lex_string cs')))
      else map_option (\<lambda>(s, n). (c # s, n + 1)) (lex_string cs))"

text \<open>The number a run of decimal digits denotes.\<close>

definition digits_value :: "jsstring \<Rightarrow> int" where
  "digits_value ds = foldl (\<lambda>a d. 10 * a + int (d - 48)) 0 ds"

text \<open>
  A number token is \<^verbatim>\<open>-? (0 | [1-9][0-9]*) (. [0-9]+)? ([eE] [+-]? [0-9]+)?\<close>. Its parts
  at the start of a text: the integer part (empty when there is none), the fraction
  with its point and the exponent with its letter and sign (each empty when there is
  none, and \<open>None\<close> when no digit follows).
\<close>

definition lex_int :: "jsstring \<Rightarrow> jsstring" where
  "lex_int s = (if take 1 s = [48] then [48] else takeWhile is_digit s)"

definition lex_frac :: "jsstring \<Rightarrow> jsstring option" where
  "lex_frac s =
     (if take 1 s = [46] then
        (case takeWhile is_digit (drop 1 s) of [] \<Rightarrow> None | d # ds \<Rightarrow> Some (46 # d # ds))
      else Some [])"

definition lex_sign :: "jsstring \<Rightarrow> jsstring" where
  "lex_sign s = (if take 1 s = [43] \<or> take 1 s = [45] then take 1 s else [])"

definition lex_exp :: "jsstring \<Rightarrow> jsstring option" where
  "lex_exp s =
     (if take 1 s = [101] \<or> take 1 s = [69] then
        (case takeWhile is_digit (drop (1 + length (lex_sign (drop 1 s))) s) of
           [] \<Rightarrow> None
         | d # ds \<Rightarrow> Some (take 1 s @ lex_sign (drop 1 s) @ d # ds))
      else Some [])"

text \<open>The value of an exponent part: zero when it is empty.\<close>

definition exp_value :: "jsstring \<Rightarrow> int" where
  "exp_value ep =
     (if lex_sign (drop 1 ep) = [45] then - digits_value (drop 2 ep)
      else if lex_sign (drop 1 ep) = [43] then digits_value (drop 2 ep)
      else digits_value (drop 1 ep))"

text \<open>
  A number without sign at the start of \<open>s\<close>: its mantissa, its decimal exponent and
  the number of code units read.
\<close>

definition lex_unsigned :: "jsstring \<Rightarrow> (int \<times> int \<times> nat) option" where
  "lex_unsigned s =
     (case lex_int s of
        [] \<Rightarrow> None
      | i # ip \<Rightarrow>
          (case lex_frac (drop (length (i # ip)) s) of
             None \<Rightarrow> None
           | Some fp \<Rightarrow>
               (case lex_exp (drop (length (i # ip) + length fp) s) of
                  None \<Rightarrow> None
                | Some ep \<Rightarrow>
                    Some (digits_value (i # ip @ drop 1 fp),
                          exp_value ep - int (length (drop 1 fp)),
                          length (i # ip) + length fp + length ep))))"

text \<open>A number token at the start of \<open>s\<close>: its value and the number of code units read.\<close>

definition lex_number :: "jsstring \<Rightarrow> (jsval \<times> nat) option" where
  "lex_number s =
     (if take 1 s = [45]
      then map_option (\<lambda>(m, e, n). (JNum (- m) e, n + 1)) (lex_unsigned (drop 1 s))
      else map_option (\<lambda>(m, e, n). (JNum m e, n)) (lex_unsigned s))"

text \<open>The tokens of a text; \<open>None\<close> when some part of it is no token.\<close>

function lex :: "jsstring \<Rightarrow> token list option" where
  "lex [] = Some []"
| "lex (c # cs) =
     (if is_json_space c then lex cs
      else if c = 123 then map_option ((#) LBrace) (lex cs)
      else if c = 125 then map_option ((#) RBrace) (lex cs)
      else if c = 91 then map_option ((#) LBracket) (lex cs)
      else if c = 93 then map_option ((#) RBracket) (lex cs)
      else if c = 58 then map_option ((#) Colon) (lex cs)
      else if c = 44 then map_option ((#) Comma) (lex cs)
      else if c = 34 then
        (case lex_string cs of
           None \<Rightarrow> None
         | Some (s, n) \<Rightarrow> map_option ((#) (Literal (JStr s))) (lex (drop n cs)))
      else if c = 45 \<or> is_digit c then
        (case lex_number (c # cs) of
           None \<Rightarrow> None
         | Some (v, n) \<Rightarrow> map_option ((#) (Literal v)) (lex (drop (n - 1) cs)))
      else if prefix (js ''true'') (c # cs) then
        map_option ((#) (Literal (JBool True))) (lex (drop 3 cs))
      else if prefix (js ''false'') (c # cs) then
        map_option ((#) (Literal (JBool False))) (lex (drop 4 cs))
      else if prefix (js ''null'') (c # cs) then
        map_option ((#) (Literal JNull)) (lex (drop 3 cs))
      else None)"
  by pat_completeness auto
termination
  by (relation "measure length") auto

text \<open>
  The parser reads the tokens from left to right. It keeps the arrays and objects that
  are still open, innermost first, and what may come next.
\<close>

datatype frame =
    InArray "jsval list"
  | InObject jsobject
  | InMember jsobject jsstring

datatype expect =
    AValue
  | AValueOrClose
  | AKeyOrClose
  | AKey
  | AColon
  | ACommaOrClose
  | Finished jsval

text \<open>A value is complete: it is the result, or it goes into the innermost open frame.\<close>

fun complete :: "jsval \<Rightarrow> frame list \<Rightarrow> (expect \<times> frame list) option" where
  "complete v [] = Some (Finished v, [])"
| "complete v (InArray xs # st) = Some (ACommaOrClose, InArray (xs @ [v]) # st)"
| "complete v (InMember kvs k # st) = Some (ACommaOrClose, InObject (obj_set kvs k v) # st)"
| "complete v (InObject kvs # st) = None"

text \<open>The start of a value, and the start of a member of the innermost object.\<close>

fun start_value :: "frame list \<Rightarrow> token \<Rightarrow> (expect \<times> frame list) option" where
  "start_value st (Literal v) = complete v st"
| "start_value st LBracket = Some (AValueOrClose, InArray [] # st)"
| "start_value st LBrace = Some (AKeyOrClose, InObject [] # st)"
| "start_value st t = None"

fun start_member :: "frame list \<Rightarrow> token \<Rightarrow> (expect \<times> frame list) option" where
  "start_member (InObject kvs # st) (Literal (JStr k)) = Some (AColon, InMember kvs k # st)"
| "start_member st t = None"

fun parse_step :: "expect \<times> frame list \<Rightarrow> token \<Rightarrow> (expect \<times> frame list) option" where
  "parse_step (AValue, st) t = start_value st t"
| "parse_step (AValueOrClose, InArray xs # st) RBracket = complete (JArr xs) st"
| "parse_step (AValueOrClose, st) t = start_value st t"
| "parse_step (AKeyOrClose, InObject kvs # st) RBrace = complete (JObj kvs) st"
| "parse_step (AKeyOrClose, st) t = start_member st t"
| "parse_step (AKey, st) t = start_member st t"
| "parse_step (AColon, st) Colon = Some (AValue, st)"
| "parse_step (ACommaOrClose, InArray xs # st) Comma = Some (AValue, InArray xs # st)"
| "parse_step (ACommaOrClose, InArray xs # st) RBracket = complete (JArr xs) st"
| "parse_step (ACommaOrClose, InObject kvs # st) Comma = Some (AKey, InObject kvs # st)"
| "parse_step (ACommaOrClose, InObject kvs # st) RBrace = complete (JObj kvs) st"
| "parse_step s t = None"

fun parse_tokens :: "expect \<times> frame list \<Rightarrow> token list \<Rightarrow> jsval option" where
  "parse_tokens (Finished v, []) [] = Some v"
| "parse_tokens s [] = None"
| "parse_tokens s (t # ts) =
     (case parse_step s t of None \<Rightarrow> None | Some s' \<Rightarrow> parse_tokens s' ts)"

definition JSON_parse :: "jsstring \<Rightarrow> jsval option" where
  "JSON_parse text = (case lex text of None \<Rightarrow> None | Some ts \<Rightarrow> parse_tokens (AValue, []) ts)"

section \<open>Promises and callbacks\<close>

text \<open>
  The state a promise of the library \<^verbatim>\<open>q\<close> ends in: it stays pending, is fulfilled with
  a value or rejected with a reason.
\<close>

datatype 'a promise = Pending | Fulfilled 'a | Rejected jsval

text \<open>
  \<^verbatim>\<open>promise.then(f)\<close> and \<^verbatim>\<open>promise.fail(g)\<close>. A handler runs on a state \<open>'s\<close> that it may
  change, and returns (\<open>Inr\<close>) or throws (\<open>Inl\<close>). The promise derived by \<open>then\<close> is
  fulfilled with what \<open>f\<close> returns and rejected with what \<open>f\<close> throws; a rejection passes
  through \<open>then\<close> and a fulfilment through \<open>fail\<close>.
\<close>

definition then_q :: "'a promise \<Rightarrow> ('a \<Rightarrow> 's \<Rightarrow> (jsval + 'b) \<times> 's) \<Rightarrow> 's \<Rightarrow> 'b promise \<times> 's" where
  "then_q promise f s =
     (case promise of
        Pending \<Rightarrow> (Pending, s)
      | Rejected e \<Rightarrow> (Rejected e, s)
      | Fulfilled v \<Rightarrow>
          (case f v s of
             (Inl x, s') \<Rightarrow> (Rejected x, s')
           | (Inr r, s') \<Rightarrow> (Fulfilled r, s')))"

definition fail_q :: "'a promise \<Rightarrow> (jsval \<Rightarrow> 's \<Rightarrow> (jsval + 'a) \<times> 's) \<Rightarrow> 's \<Rightarrow> 'a promise \<times> 's" where
  "fail_q promise g s =
     (case promise of
        Pending \<Rightarrow> (Pending, s)
      | Fulfilled v \<Rightarrow> (Fulfilled v, s)
      | Rejected e \<Rightarrow>
          (case g e s of
             (Inl x, s') \<Rightarrow> (Rejected x, s')
           | (Inr r, s') \<Rightarrow> (Fulfilled r, s')))"

text \<open>
  A caller's callback takes the error argument and the value argument (\<open>None\<close> when it
  is called with one argument only) and returns (\<open>None\<close>) or throws (\<open>Some x\<close>). Every
  call is written to a log of the arguments it was made with.
\<close>

type_synonym 'a callback = "jsval \<Rightarrow> 'a option \<Rightarrow> jsval option"

type_synonym 'a invocations = "(jsval \<times> 'a option) list"

definition invoke :: "'a callback \<Rightarrow> jsval \<Rightarrow> 'a option \<Rightarrow> 'a invocations \<Rightarrow> (jsval + unit) \<times> 'a invocations" where
  "invoke callback e v log =
     ((case callback e v of Some x \<Rightarrow> Inl x | None \<Rightarrow> Inr ()), log @ [(e, v)])"

text \<open>
  \<^verbatim>\<open>if (callback) { promise.then(callback.bind(null, null)).fail(callback); }\<close>:
  the calls of the callback this makes.
\<close>

definition drain :: "'a callback option \<Rightarrow> 'a promise \<Rightarrow> 'a invocations" where
  "drain callback promise =
     (case callback of
        None \<Rightarrow> []
      | Some cb \<Rightarrow>
          (let (p1, log1) = then_q promise (\<lambda>v. invoke cb JNull (Some v)) [];
               (p2, log2) = fail_q p1 (\<lambda>e. invoke cb e None) log1
           in log2))"

section \<open>The request pipeline\<close>

text \<open>The static properties of \<^verbatim>\<open>Vineapple\<close>.\<close>

definition API_ORIGIN :: jsstring where
  "API_ORIGIN = js ''https://api.vineapp.com/''"

definition ACCEPT_LANGUAGE :: jsstring where
  "ACCEPT_LANGUAGE = js ''en;q=1, fr;q=0.9, de;q=0.8, ja;q=0.7, nl;q=0.6, it;q=0.5''"

definition USER_AGENT :: jsstring where
  "USER_AGENT = js ''iphone/1.3.1 (iPhone; iOS 6.1.3; Scale/2.00)''"

definition X_VINE_CLIENT :: jsstring where
  "X_VINE_CLIENT = js ''ios/1.3.1''"

definition DEVICE_TOKEN :: jsstring where
  "DEVICE_TOKEN = []"

definition DEVICE_TOKEN_SEED :: jsstring where
  "DEVICE_TOKEN_SEED = js ''Ananas comosus''"

text \<open>
  A request descriptor \<^verbatim>\<open>{method, url, headers, qs, form}\<close> (the field \<open>http_method\<close> is
  its property \<^verbatim>\<open>method\<close>). \<open>headers\<close> refers to an object of the store; \<open>qs\<close> and \<open>form\<close>
  are handed to the transport as they are.
\<close>

record descriptor =
  http_method :: "jsstring option"
  url :: jsstring
  headers :: "nat option"
  qs :: jsval
  form :: jsval

text \<open>
  The store: the descriptors and the header objects allocated so far, each at its index,
  and the calls of the transport, each with the descriptor it was given.
\<close>

record world =
  descriptors :: "descriptor list"
  objects :: "jsobject list"
  calls :: "nat list"

definition new_descriptor :: "descriptor \<Rightarrow> world \<Rightarrow> nat \<times> world" where
  "new_descriptor d w = (length (descriptors w), w\<lparr>descriptors := descriptors w @ [d]\<rparr>)"

definition new_object :: "jsobject \<Rightarrow> world \<Rightarrow> nat \<times> world" where
  "new_object ob w = (length (objects w), w\<lparr>objects := objects w @ [ob]\<rparr>)"

definition descriptor_at :: "world \<Rightarrow> nat \<Rightarrow> descriptor option" where
  "descriptor_at w a = (if a < length (descriptors w) then Some (descriptors w ! a) else None)"

definition object_at :: "world \<Rightarrow> nat \<Rightarrow> jsobject" where
  "object_at w a = (if a < length (objects w) then objects w ! a else [])"

text \<open>
  \<^verbatim>\<open>_.defaults(object, source, ...)\<close> of lodash: every own property of each source, in
  turn, is assigned to \<open>object\<close> where \<open>object\<close> has \<^verbatim>\<open>undefined\<close> for that name. (The
  names every object inherits, such as \<^verbatim>\<open>constructor\<close>, are not modelled: no header of
  the client has one.)
\<close>

definition defaults :: "jsobject \<Rightarrow> jsobject list \<Rightarrow> jsobject" where
  "defaults object sources =
     fold (\<lambda>source ob.
             fold (\<lambda>(k, v) ob. if obj_get ob k = JUndefined then obj_set ob k v else ob) source ob)
       sources object"

text \<open>
  The last argument of the call of \<^verbatim>\<open>_.defaults\<close> in \<^verbatim>\<open>request\<close>:
  \<^verbatim>\<open>{ headers: { 'X-Vine-Client': ..., 'Accept-Language': ..., 'User-Agent': ... } }\<close>.
\<close>

definition header_defaults :: jsobject where
  "header_defaults =
     [(js ''headers'',
       JObj [(js ''X-Vine-Client'', JStr X_VINE_CLIENT),
             (js ''Accept-Language'', JStr ACCEPT_LANGUAGE),
             (js ''User-Agent'', JStr USER_AGENT)])]"

text \<open>
  The argument \<^verbatim>\<open>options\<close> of \<^verbatim>\<open>request\<close>: a path, or a reference to a descriptor.
\<close>

datatype options = Path jsstring | Options nat

text \<open>
  The first part of \<^verbatim>\<open>request\<close>, up to the call of the transport: it builds the
  descriptor the transport is given and returns its reference. \<open>literal\<close> is the last
  argument of \<^verbatim>\<open>_.defaults\<close>. A reference to no descriptor stands for an argument that
  is no object; the assignment to \<^verbatim>\<open>options.url\<close> then raises a TypeError.
\<close>

definition build_options :: "jsobject \<Rightarrow> client \<Rightarrow> options \<Rightarrow> world \<Rightarrow> jsexn + nat \<times> world" where
  "build_options literal this opts w =
     (case (case opts of
              Path p \<Rightarrow> Some \<lparr>http_method = None, url = p, headers = None, qs = JUndefined, form = JUndefined\<rparr>
            | Options a \<Rightarrow> descriptor_at w a) of
        None \<Rightarrow> Inl TypeError
      | Some d \<Rightarrow>
          (let (a, w1) = new_descriptor d w;
               d1 = d\<lparr>url := API_ORIGIN @ url d\<rparr>;
               sources = (case headers d1 of None \<Rightarrow> [] | Some h \<Rightarrow> [object_at w1 h]) @ [literal];
               (h, w2) = new_object (defaults [] sources) w1;
               d2 = d1\<lparr>headers := Some h\<rparr>;
               w3 = w2\<lparr>descriptors := (descriptors w2)[a := d2]\<rparr>;
               w4 = (if truthy (key this)
                     then w3\<lparr>objects := (objects w3)[h := obj_set (object_at w3 h) (js ''vine-session-id'') (key this)]\<rparr>
                     else w3)
           in Inr (a, w4)))"

text \<open>
  What the transport calls back with: \<^verbatim>\<open>(error, response, body)\<close>; of the response only
  the status code is kept.
\<close>

record reply =
  error :: jsval
  response :: nat
  body :: jsval

text \<open>
  \<^verbatim>\<open>body.replace(search, replacement)\<close>: \<open>repl\<close> on a string; a TypeError on every other
  value, which has no method \<^verbatim>\<open>replace\<close>.
\<close>

definition body_replace :: "(jsstring \<Rightarrow> jsstring) \<Rightarrow> jsval \<Rightarrow> jsexn + jsstring" where
  "body_replace repl b = (case b of JStr s \<Rightarrow> Inr (repl s) | _ \<Rightarrow> Inl TypeError)"

text \<open>
  The function \<^verbatim>\<open>request\<close> hands to the transport: the state it leaves the deferred in.
  Whatever is thrown inside \<^verbatim>\<open>try\<close> is caught and rejects with \<^verbatim>\<open>new Error(error)\<close>.
\<close>

definition on_response :: "(jsstring \<Rightarrow> jsstring) \<Rightarrow> reply \<Rightarrow> jsval promise" where
  "on_response repl r =
     (if truthy (error r) then Rejected (JError (error r))
      else
        (case body_replace repl (body r) of
           Inl x \<Rightarrow> Rejected (JError (JExn x))
         | Inr text \<Rightarrow>
             (case JSON_parse text of
                None \<Rightarrow> Rejected (JError (JExn SyntaxError))
              | Some data \<Rightarrow>
                  (case member data (js ''error'') of
                     Inl x \<Rightarrow> Rejected (JError (JExn x))
                   | Inr err \<Rightarrow>
                       if truthy err then Rejected (JError err)
                       else
                         (case member data (js ''data'') of
                            Inl x \<Rightarrow> Rejected (JError (JExn x))
                          | Inr v \<Rightarrow> Fulfilled v)))))"

text \<open>
  \<^verbatim>\<open>request: function (options, callback)\<close>. The transport's answer is a parameter:
  \<open>None\<close> when it never calls back. The result is the exception \<^verbatim>\<open>request\<close> throws, or
  the promise it returns with the calls of the callback; the store records the call of
  the transport.
\<close>

definition request :: "client \<Rightarrow> options \<Rightarrow> jsval callback option \<Rightarrow> reply option \<Rightarrow> world \<Rightarrow> (jsexn + jsval promise \<times> jsval invocations) \<times> world" where
  "request this opts callback answer w =
     (case build_options header_defaults this opts w of
        Inl x \<Rightarrow> (Inl x, w)
      | Inr (a, w1) \<Rightarrow>
          (let w2 = w1\<lparr>calls := calls w1 @ [a]\<rparr>;
               promise = (case answer of None \<Rightarrow> Pending | Some r \<Rightarrow> on_response VINE_ID_REPLACE r)
           in (Inr (promise, drain callback promise), w2)))"

section \<open>Login and logout\<close>

text \<open>
  An argument that is a string or missing. \<open>text_of\<close> is empty exactly when the
  argument is falsy (\<^verbatim>\<open>!username\<close>): missing, or the empty string.
\<close>

definition text_of :: "jsstring option \<Rightarrow> jsstring" where
  "text_of a = (case a of None \<Rightarrow> [] | Some s \<Rightarrow> s)"

text \<open>
  \<^verbatim>\<open>function createDeviceToken (token)\<close>: the hexadecimal SHA-256 digest of the token.
  The hash of the platform's \<^verbatim>\<open>crypto\<close> is a parameter.
\<close>

definition createDeviceToken :: "(jsstring \<Rightarrow> jsstring) \<Rightarrow> jsstring \<Rightarrow> jsstring" where
  "createDeviceToken sha256 token = sha256 token"

text \<open>
  The descriptor of the authentication request:
  \<^verbatim>\<open>{ method: 'post', url: 'users/authenticate', form: { deviceToken: ..., username: ..., password: ... } }\<close>.
\<close>

definition authenticate :: "(jsstring \<Rightarrow> jsstring) \<Rightarrow> jsstring \<Rightarrow> jsstring \<Rightarrow> descriptor" where
  "authenticate sha256 u p =
     \<lparr>http_method = Some (js ''post''),
      url = js ''users/authenticate'',
      headers = None,
      qs = JUndefined,
      form = JObj [(js ''deviceToken'',
                    JStr (if DEVICE_TOKEN \<noteq> [] then DEVICE_TOKEN
                          else createDeviceToken sha256
                                 (DEVICE_TOKEN_SEED @ js '':'' @ u @ js '':'' @ p))),
                   (js ''username'', JStr u),
                   (js ''password'', JStr p)]\<rparr>"

text \<open>\<^verbatim>\<open>{ method: 'delete', url: 'users/authenticate' }\<close>.\<close>

definition deauthenticate :: descriptor where
  "deauthenticate =
     \<lparr>http_method = Some (js ''delete''),
      url = js ''users/authenticate'',
      headers = None,
      qs = JUndefined,
      form = JUndefined\<rparr>"

text \<open>
  The handler \<^verbatim>\<open>this.authorize.bind(this)\<close>: it writes the client and returns it.
\<close>

definition authorize_bound :: "jsval \<Rightarrow> client \<Rightarrow> (jsval + client) \<times> client" where
  "authorize_bound settings this = (Inr (authorize this settings), authorize this settings)"

text \<open>
  \<^verbatim>\<open>login: function (username, password, callback)\<close>. The result is the exception it
  throws, or the promise it returns with the calls of the callback; then the client and
  the store after the attempt. \<open>user\<close> is the argument \<^verbatim>\<open>username\<close>.
\<close>

definition login :: "(jsstring \<Rightarrow> jsstring) \<Rightarrow> client \<Rightarrow> jsstring option \<Rightarrow> jsstring option \<Rightarrow> client callback option \<Rightarrow> reply option \<Rightarrow> world \<Rightarrow> (jsval + client promise \<times> client invocations) \<times> client \<times> world" where
  "login sha256 this user password callback answer w =
     (if text_of user = [] then
        (Inl (JError (JStr (js ''Invalid credentials. Missing username.''))), this, w)
      else if text_of password = [] then
        (Inl (JError (JStr (js ''Invalid credentials. Missing password.''))), this, w)
      else
        (let (a, w1) = new_descriptor (authenticate sha256 (text_of user) (text_of password)) w
         in case request this (Options a) None answer w1 of
              (Inl x, w2) \<Rightarrow> (Inl (JExn x), this, w2)
            | (Inr (req, log), w2) \<Rightarrow>
                (let (promise, this') = then_q req authorize_bound this
                 in (Inr (promise, drain callback promise), this', w2))))"

text \<open>\<^verbatim>\<open>logout: function (callback)\<close>.\<close>

definition logout :: "client \<Rightarrow> client callback option \<Rightarrow> reply option \<Rightarrow> world \<Rightarrow> (jsval + client promise \<times> client invocations) \<times> client \<times> world" where
  "logout this callback answer w =
     (let (a, w1) = new_descriptor deauthenticate w
      in case request this (Options a) None answer w1 of
           (Inl x, w2) \<Rightarrow> (Inl (JExn x), this, w2)
         | (Inr (req, log), w2) \<Rightarrow>
             (let (promise, this') = then_q req authorize_bound this
              in (Inr (promise, drain callback promise), this', w2)))"

section \<open>The snapshot under lib\<close>

text \<open>
  \<^verbatim>\<open>lib/vineapple.js\<close> is an earlier state of the same client. Its functions carry the
  suffix \<open>_lib\<close>. It has no callbacks, two default headers, and quotes the field
  \<^verbatim>\<open>userId\<close> only: \<^verbatim>\<open>body.replace(/"userId":(\s*)(\d*)/g, '"userId":$1"$2"')\<close>.
\<close>

definition USER_AGENT_lib :: jsstring where
  "USER_AGENT_lib = js ''com.vine.iphone/1.0.3 (unknown, iPhone OS 6.0.1, iPhone, Scale/2.000000)''"

definition ACCEPT_LANGUAGE_lib :: jsstring where
  "ACCEPT_LANGUAGE_lib = js ''en, sv, fr, de, ja, nl, it, es, pt, pt-PT, da, fi, nb, ko, zh-Hans, zh-Hant, ru, pl, tr, uk, ar, hr, cs, el, he, ro, sk, th, id, ms, en-GB, ca, hu, vi, en-us;q=0.8''"

definition header_defaults_lib :: jsobject where
  "header_defaults_lib =
     [(js ''headers'',
       JObj [(js ''User-Agent'', JStr USER_AGENT_lib),
             (js ''Accept-Language'', JStr ACCEPT_LANGUAGE_lib)])]"

definition userId_replace_lib :: "jsstring \<Rightarrow> jsstring" where
  \<open>userId_replace_lib s = replace_ids [js ''"userId":''] False s\<close>

definition request_lib :: "client \<Rightarrow> options \<Rightarrow> reply option \<Rightarrow> world \<Rightarrow> (jsexn + jsval promise) \<times> world" where
  "request_lib this opts answer w =
     (case build_options header_defaults_lib this opts w of
        Inl x \<Rightarrow> (Inl x, w)
      | Inr (a, w1) \<Rightarrow>
          (Inr (case answer of None \<Rightarrow> Pending | Some r \<Rightarrow> on_response userId_replace_lib r),
           w1\<lparr>calls := calls w1 @ [a]\<rparr>))"

text \<open>\<^verbatim>\<open>initialize: function ()\<close>.\<close>

definition initialize :: "client \<Rightarrow> client" where
  "initialize this = this\<lparr>key := JNull, userId := JNull, username := JNull\<rparr>"

text \<open>
  \<^verbatim>\<open>authorize: function (data)\<close> of the snapshot reads \<^verbatim>\<open>data.key\<close> with no guard: on
  \<^verbatim>\<open>undefined\<close> and \<^verbatim>\<open>null\<close> the first assignment raises, before any field is written.
\<close>

definition authorize_lib :: "client \<Rightarrow> jsval \<Rightarrow> jsexn + client" where
  "authorize_lib this data =
     (case member data (js ''key'') of
        Inl x \<Rightarrow> Inl x
      | Inr k \<Rightarrow>
          (case member data (js ''userId'') of
             Inl x \<Rightarrow> Inl x
           | Inr u \<Rightarrow>
               (case member data (js ''username'') of
                  Inl x \<Rightarrow> Inl x
                | Inr n \<Rightarrow> Inr (this\<lparr>key := k, userId := u, username := n\<rparr>))))"

definition authorize_bound_lib :: "jsval \<Rightarrow> client \<Rightarrow> (jsval + client) \<times> client" where
  "authorize_bound_lib data this =
     (case authorize_lib this data of
        Inl x \<Rightarrow> (Inl (JExn x), this)
      | Inr this' \<Rightarrow> (Inr this', this'))"

definition initialize_bound :: "jsval \<Rightarrow> client \<Rightarrow> (jsval + client) \<times> client" where
  "initialize_bound v this = (Inr (initialize this), initialize this)"

text \<open>
  \<^verbatim>\<open>login: function (username, password)\<close> of the snapshot: after the two checks it
  calls \<^verbatim>\<open>this.initialize()\<close>, then sends the request (with no device token).
\<close>

definition authenticate_lib :: "jsstring \<Rightarrow> jsstring \<Rightarrow> descriptor" where
  "authenticate_lib u p =
     \<lparr>http_method = Some (js ''post''),
      url = js ''users/authenticate'',
      headers = None,
      qs = JUndefined,
      form = JObj [(js ''username'', JStr u), (js ''password'', JStr p)]\<rparr>"

definition login_lib :: "client \<Rightarrow> jsstring option \<Rightarrow> jsstring option \<Rightarrow> reply option \<Rightarrow> world \<Rightarrow> (jsval + client promise) \<times> client \<times> world" where
  "login_lib this user password answer w =
     (if text_of user = [] then
        (Inl (JError (JStr (js ''Invalid credentials. Missing username.''))), this, w)
      else if text_of password = [] then
        (Inl (JError (JStr (js ''Invalid credentials. Missing password.''))), this, w)
      else
        (let this1 = initialize this;
             (a, w1) = new_descriptor (authenticate_lib (text_of user) (text_of password)) w
         in case request_lib this1 (Options a) answer w1 of
              (Inl x, w2) \<Rightarrow> (Inl (JExn x), this1, w2)
            | (Inr req, w2) \<Rightarrow>
                (let (promise, this') = then_q req authorize_bound_lib this1
                 in (Inr promise, this', w2))))"

text \<open>\<^verbatim>\<open>logout: function ()\<close> of the snapshot.\<close>

definition logout_lib :: "client \<Rightarrow> reply option \<Rightarrow> world \<Rightarrow> (jsval + client promise) \<times> client \<times> world" where
  "logout_lib this answer w =
     (let (a, w1) = new_descriptor deauthenticate w
      in case request_lib this (Options a) answer w1 of
           (Inl x, w2) \<Rightarrow> (Inl (JExn x), this, w2)
         | (Inr req, w2) \<Rightarrow>
             (let (promise, this') = then_q req initialize_bound this
              in (Inr promise, this', w2)))"

section \<open>Notions and sample inputs of the properties\<close>

text \<open>
  A value carries a field when it is an object whose property of that name is truthy.
\<close>

fun carries :: "jsval \<Rightarrow> jsstring \<Rightarrow> bool" where
  "carries (JObj kvs) k = truthy (obj_get kvs k)"
| "carries v k = False"

text \<open>
  The reference to the headers object of the descriptor at \<open>a\<close>, and that object.
\<close>

definition headers_ref :: "world \<Rightarrow> nat \<Rightarrow> nat option" where
  "headers_ref w a = (case descriptor_at w a of None \<Rightarrow> None | Some d \<Rightarrow> headers d)"

definition sent_headers :: "world \<Rightarrow> nat \<Rightarrow> jsobject" where
  "sent_headers w a = (case headers_ref w a of None \<Rightarrow> [] | Some h \<Rightarrow> object_at w h)"

text \<open>The headers object of the descriptor the transport was last called with.\<close>

definition dispatched_headers :: "world \<Rightarrow> jsobject" where
  "dispatched_headers w =
     (case descriptor_at w (last (calls w)) of
        None \<Rightarrow> []
      | Some d \<Rightarrow> (case headers d of None \<Rightarrow> [] | Some h \<Rightarrow> object_at w h))"

text \<open>
  A store with nothing allocated and no call of the transport, an authenticated client,
  and an answer of the transport that reports a failure of the network.
\<close>

definition empty_world :: world where
  "empty_world = \<lparr>descriptors = [], objects = [], calls = []\<rparr>"

definition sample_client :: client where
  "sample_client =
     \<lparr>key = JStr (js ''k1''), userId = JStr (js ''7''), username = JStr (js ''ananas'')\<rparr>"

definition transport_down :: reply where
  "transport_down = \<lparr>error = JStr (js ''ETIMEDOUT''), response = 0, body = JUndefined\<rparr>"

text \<open>
  A store with two descriptors of a caller, each with a headers object of its own.
\<close>

definition two_descriptors :: world where
  "two_descriptors =
     \<lparr>descriptors =
        [\<lparr>http_method = None, url = js ''users/me'', headers = Some 0,
          qs = JUndefined, form = JUndefined\<rparr>,
         \<lparr>http_method = None, url = js ''timelines/popular'', headers = Some 1,
          qs = JUndefined, form = JUndefined\<rparr>],
      objects = [[(js ''A'', JStr (js ''1''))], [(js ''B'', JStr (js ''2''))]],
      calls = []\<rparr>"

text \<open>A callback that throws when it is called with a value.\<close>

definition throws_on_success :: "jsval callback" where
  "throws_on_success e v = (case v of None \<Rightarrow> None | Some x \<Rightarrow> Some (JExn TypeError))"

text \<open>The definitions a run of the pipeline on a concrete input unfolds.\<close>

lemmas run_request =
  build_options_def descriptor_at_def object_at_def new_descriptor_def new_object_def
  defaults_def header_defaults_def header_defaults_lib_def obj_get_def obj_set_def
  on_response_def body_replace_def member_def then_q_def fail_q_def drain_def invoke_def
  Let_def

lemmas run_text =
  js_def VINE_ID_REPLACE_def userId_replace_lib_def VINE_ID_FIELDS_def match_at_def
  is_digit_def is_space_def JSON_parse_def is_json_space_def lex_number_def lex_unsigned_def
  lex_int_def lex_frac_def lex_exp_def lex_sign_def exp_value_def digits_value_def
  hex4_def hex_digit_def unescape_def

section \<open>Properties of the identifier repair\<close>





















text \<open>
  Claim C10: the body \<^verbatim>\<open>{"data":{"userId": null}}\<close> is valid JSON; the repair matches
  \<^verbatim>\<open>"userId": \<close> with no digit and puts an empty string before \<^verbatim>\<open>null\<close>; the result is
  no JSON, and the request is rejected with the error built from the SyntaxError.
  Without the repair the same answer fulfils the promise.
\<close>

theorem repair_breaks_valid_json:
  \<open>JSON_parse (js ''{"data":{"userId": null}}'')
      = Some (JObj [(js ''data'', JObj [(js ''userId'', JNull)])]) \<and>
    VINE_ID_REPLACE (js ''{"data":{"userId": null}}'') = js ''{"data":{"userId": ""null}}'' \<and>
    JSON_parse (js ''{"data":{"userId": ""null}}'') = None \<and>
    fst (request sample_client (Path (js ''users/me'')) None
      (Some \<lparr>error = JNull, response = 200, body = JStr (js ''{"data":{"userId": null}}'')\<rparr>)
      empty_world) = Inr (Rejected (JError (JExn SyntaxError)), []) \<and>
    on_response (\<lambda>s. s) \<lparr>error = JNull, response = 200, body = JStr (js ''{"data":{"userId": null}}'')\<rparr>
      = Fulfilled (JObj [(js ''userId'', JNull)])\<close>
  by (simp add: request_def sample_client_def empty_world_def run_request run_text)

section \<open>Properties of the request pipeline\<close>





text \<open>
  Claim C8 says that a callback is called exactly once. The code chains
  \<^verbatim>\<open>promise.then(callback.bind(null, null)).fail(callback)\<close>, so a callback that throws when
  it is called with the value is called again, with what it threw as the error, although
  the promise of the request is fulfilled.
\<close>

theorem callback_called_twice:
  \<open>fst (request sample_client (Path (js ''users/me'')) (Some throws_on_success)
      (Some \<lparr>error = JNull, response = 200, body = JStr (js ''{"data":{"x":1}}'')\<rparr>)
      empty_world)
    = Inr (Fulfilled (JObj [(js ''x'', JNum 1 0)]),
           [(JNull, Some (JObj [(js ''x'', JNum 1 0)])), (JExn TypeError, None)])\<close>
  by (simp add: request_def sample_client_def empty_world_def throws_on_success_def run_request run_text)

text \<open>
  Claim C2 says that the headers handed to the transport are the caller's headers over
  the three defaults. The code passes the defaults to \<^verbatim>\<open>_.defaults\<close> inside an object
  with the single property \<^verbatim>\<open>headers\<close>: a request with no headers of its own is sent with
  one header, named \<^verbatim>\<open>headers\<close>, and with none of the three defaults.
\<close>

theorem defaults_nested_under_headers:
  "dispatched_headers (snd (request (Vineapple JUndefined) (Path (js ''users/me'')) None None empty_world))
     = [(js ''headers'',
         JObj [(js ''X-Vine-Client'', JStr X_VINE_CLIENT),
               (js ''Accept-Language'', JStr ACCEPT_LANGUAGE),
               (js ''User-Agent'', JStr USER_AGENT)])] \<and>
   obj_get (dispatched_headers (snd (request (Vineapple JUndefined) (Path (js ''users/me'')) None None empty_world)))
     (js ''User-Agent'') = JUndefined \<and>
   obj_get (dispatched_headers (snd (request (Vineapple JUndefined) (Path (js ''users/me'')) None None empty_world)))
     (js ''X-Vine-Client'') = JUndefined \<and>
   obj_get (dispatched_headers (snd (request (Vineapple JUndefined) (Path (js ''users/me'')) None None empty_world)))
     (js ''Accept-Language'') = JUndefined"
  by (simp add: dispatched_headers_def request_def Vineapple_def authorize_def and_member_def empty_world_def run_request js_def)

section \<open>The objects of the caller\<close>

text \<open>
  What the first part of a request does to the store: it appends one descriptor and one
  headers object, and the new descriptor refers to the new headers object.
\<close>

lemma build_options_frame:
  assumes "build_options literal this opts w = Inr (a, w')"
  shows "\<exists>d ob. a = length (descriptors w) \<and> descriptors w' = descriptors w @ [d] \<and>
           objects w' = objects w @ [ob] \<and> headers d = Some (length (objects w)) \<and>
           calls w' = calls w"
  using assms
  by (auto simp: build_options_def new_descriptor_def new_object_def Let_def object_at_def
           split: option.splits if_splits)

lemma request_frame:
  assumes "request this opts callback answer w = (r, w')"
  shows "(\<exists>x. r = Inl x \<and> w' = w) \<or>
         (\<exists>p d ob. r = Inr p \<and> descriptors w' = descriptors w @ [d] \<and>
           objects w' = objects w @ [ob] \<and> headers d = Some (length (objects w)) \<and>
           calls w' = calls w @ [length (descriptors w)])"
proof (cases "build_options header_defaults this opts w")
  case (Inl x)
  with assms show ?thesis by (auto simp: request_def)
next
  case (Inr b)
  obtain a w1 where b: "b = (a, w1)" by (cases b)
  from build_options_frame [of header_defaults this opts w a w1] Inr b
  obtain d ob where "a = length (descriptors w)" "descriptors w1 = descriptors w @ [d]"
    "objects w1 = objects w @ [ob]" "headers d = Some (length (objects w))" "calls w1 = calls w"
    by auto
  with assms Inr b show ?thesis
    by (auto simp: request_def Let_def)
qed

lemma request_lib_frame:
  assumes "request_lib this opts answer w = (r, w')"
  shows "(\<exists>x. r = Inl x \<and> w' = w) \<or>
         (\<exists>p d ob. r = Inr p \<and> descriptors w' = descriptors w @ [d] \<and>
           objects w' = objects w @ [ob] \<and> headers d = Some (length (objects w)) \<and>
           calls w' = calls w @ [length (descriptors w)])"
proof (cases "build_options header_defaults_lib this opts w")
  case (Inl x)
  with assms show ?thesis by (auto simp: request_lib_def)
next
  case (Inr b)
  obtain a w1 where b: "b = (a, w1)" by (cases b)
  from build_options_frame [of header_defaults_lib this opts w a w1] Inr b
  obtain d ob where "a = length (descriptors w)" "descriptors w1 = descriptors w @ [d]"
    "objects w1 = objects w @ [ob]" "headers d = Some (length (objects w))" "calls w1 = calls w"
    by auto
  with assms Inr b show ?thesis
    by (auto simp: request_lib_def Let_def)
qed

text \<open>
  Claim C9: a request (of the current client or of the snapshot) leaves every descriptor
  and every object that was in the store as it was; the descriptor handed to the
  transport and its headers object are new. So two requests are sent with two different
  headers objects, and an assignment to an object the caller had before them changes
  neither of the headers objects that were sent.
\<close>

theorem request_never_mutates_caller_objects:
  "(request this opts callback answer w = (r, w') \<or> request_lib this opts answer' w = (r', w')
      \<longrightarrow> prefix (descriptors w) (descriptors w') \<and> prefix (objects w) (objects w')) \<and>
   (request this opts callback answer w = (Inr p, w') \<or>
    request_lib this opts answer' w = (Inr p', w')
      \<longrightarrow> last (calls w') = length (descriptors w) \<and>
          headers_ref w' (last (calls w')) = Some (length (objects w))) \<and>
   (request thisA optsA callbackA answerA w = (Inr pA, wA) \<and>
    request thisB optsB callbackB answerB wA = (Inr pB, wB) \<and> h < length (objects w)
      \<longrightarrow> headers_ref wB (last (calls wA)) \<noteq> headers_ref wB (last (calls wB)) \<and>
          sent_headers (wB\<lparr>objects := (objects wB)[h := ob]\<rparr>) (last (calls wA))
            = sent_headers wA (last (calls wA)) \<and>
          sent_headers (wB\<lparr>objects := (objects wB)[h := ob]\<rparr>) (last (calls wB))
            = sent_headers wB (last (calls wB)))"
proof (intro conjI impI)
  assume "request this opts callback answer w = (r, w') \<or>
    request_lib this opts answer' w = (r', w')"
  then show "prefix (descriptors w) (descriptors w')" "prefix (objects w) (objects w')"
    using request_frame [of this opts callback answer w r w']
      request_lib_frame [of this opts answer' w r' w'] by auto
next
  assume "request this opts callback answer w = (Inr p, w') \<or>
    request_lib this opts answer' w = (Inr p', w')"
  then show "last (calls w') = length (descriptors w)"
    "headers_ref w' (last (calls w')) = Some (length (objects w))"
    using request_frame [of this opts callback answer w "Inr p" w']
      request_lib_frame [of this opts answer' w "Inr p'" w']
    by (auto simp: headers_ref_def descriptor_at_def)
next
  assume a: "request thisA optsA callbackA answerA w = (Inr pA, wA) \<and>
    request thisB optsB callbackB answerB wA = (Inr pB, wB) \<and> h < length (objects w)"
  from a request_frame [of thisA optsA callbackA answerA w "Inr pA" wA]
  obtain dA obA where A: "descriptors wA = descriptors w @ [dA]" "objects wA = objects w @ [obA]"
    "headers dA = Some (length (objects w))" "calls wA = calls w @ [length (descriptors w)]"
    by auto
  from a request_frame [of thisB optsB callbackB answerB wA "Inr pB" wB]
  obtain dB obB where B: "descriptors wB = descriptors wA @ [dB]"
    "objects wB = objects wA @ [obB]"
    "headers dB = Some (length (objects wA))" "calls wB = calls wA @ [length (descriptors wA)]"
    by auto
  from a have h: "h < length (objects w)" by simp
  show "headers_ref wB (last (calls wA)) \<noteq> headers_ref wB (last (calls wB))"
    using A B by (simp add: headers_ref_def descriptor_at_def nth_append)
  show "sent_headers (wB\<lparr>objects := (objects wB)[h := ob]\<rparr>) (last (calls wA))
          = sent_headers wA (last (calls wA))"
    using A B h
    by (simp add: sent_headers_def headers_ref_def descriptor_at_def object_at_def nth_append)
  show "sent_headers (wB\<lparr>objects := (objects wB)[h := ob]\<rparr>) (last (calls wB))
          = sent_headers wB (last (calls wB))"
    using A B h
    by (simp add: sent_headers_def headers_ref_def descriptor_at_def object_at_def nth_append)
qed

theorem request_never_mutates_caller_objects_witness:
  "prefix (descriptors two_descriptors)
     (descriptors (snd (request sample_client (Options 0) None None two_descriptors))) \<and>
   prefix (objects two_descriptors)
     (objects (snd (request sample_client (Options 0) None None two_descriptors))) \<and>
   0 < length (objects two_descriptors) \<and>
   sent_headers
     ((snd (request sample_client (Options 1) None None
        (snd (request sample_client (Options 0) None None two_descriptors))))
      \<lparr>objects := (objects (snd (request sample_client (Options 1) None None
        (snd (request sample_client (Options 0) None None two_descriptors)))))
          [0 := [(js ''A'', JStr (js ''changed''))]]\<rparr>) 2
     = [(js ''A'', JStr (js ''1'')),
        (js ''headers'',
         JObj [(js ''X-Vine-Client'', JStr X_VINE_CLIENT),
               (js ''Accept-Language'', JStr ACCEPT_LANGUAGE),
               (js ''User-Agent'', JStr USER_AGENT)]),
        (js ''vine-session-id'', JStr (js ''k1''))]"
proof -
  let ?w = two_descriptors
  let ?ra = "request sample_client (Options 0) None None ?w"
  let ?wa = "snd ?ra"
  let ?rb = "request sample_client (Options 1) None None ?wa"
  let ?wb = "snd ?rb"
  have wa: "?wa =
      \<lparr>descriptors = descriptors ?w @
         [\<lparr>http_method = None, url = API_ORIGIN @ js ''users/me'', headers = Some 2,
           qs = JUndefined, form = JUndefined\<rparr>],
       objects = objects ?w @
         [[(js ''A'', JStr (js ''1'')),
           (js ''headers'',
            JObj [(js ''X-Vine-Client'', JStr X_VINE_CLIENT),
                  (js ''Accept-Language'', JStr ACCEPT_LANGUAGE),
                  (js ''User-Agent'', JStr USER_AGENT)]),
           (js ''vine-session-id'', JStr (js ''k1''))]],
       calls = [2]\<rparr>"
    by (simp add: request_def two_descriptors_def sample_client_def run_request js_def)
  have ra: "?ra = (Inr (Pending, []), ?wa)"
    by (simp add: request_def two_descriptors_def sample_client_def run_request js_def prod_eq_iff)
  have rb: "?rb = (Inr (Pending, []), ?wb)"
    by (simp add: wa)
       (simp add: request_def two_descriptors_def sample_client_def run_request js_def prod_eq_iff)
  have n: "0 < length (objects ?w)"
    by (simp add: two_descriptors_def)
  have s: "sent_headers ?wa (last (calls ?wa)) =
      [(js ''A'', JStr (js ''1'')),
        (js ''headers'',
         JObj [(js ''X-Vine-Client'', JStr X_VINE_CLIENT),
               (js ''Accept-Language'', JStr ACCEPT_LANGUAGE),
               (js ''User-Agent'', JStr USER_AGENT)]),
        (js ''vine-session-id'', JStr (js ''k1''))]"
    by (simp add: wa) (simp add: headers_ref_def sent_headers_def descriptor_at_def object_at_def two_descriptors_def)
  have l: "last (calls ?wa) = 2"
    by (simp add: wa)
  note t = request_never_mutates_caller_objects
    [where this = sample_client and opts = "Options 0" and callback = None and answer = None
       and w = ?w and r = "Inr (Pending, [])" and w' = ?wa
       and thisA = sample_client and optsA = "Options 0" and callbackA = None
       and answerA = None and pA = "(Pending, [])" and wA = ?wa
       and thisB = sample_client and optsB = "Options 1" and callbackB = None
       and answerB = None and pB = "(Pending, [])" and wB = ?wb
       and h = 0 and ob = "[(js ''A'', JStr (js ''changed''))]"]
  from t ra rb n s l show ?thesis
    by simp
qed

section \<open>Properties of the session state\<close>

lemma truthy_and_member: "truthy (and_member settings k) = carries settings k"
  by (cases settings) (auto simp: and_member_def)

text \<open>
  Claim C6, as stated: construction and every write of the session state keep the three
  fields all present or all absent. It fails: \<^verbatim>\<open>new Vineapple({key: 'abc'})\<close> holds a
  credential and no user identity.
\<close>

theorem authorize_credential_without_identity:
  "\<not> (all_present (Vineapple (JObj [(js ''key'', JStr (js ''abc''))]))
      \<or> all_absent (Vineapple (JObj [(js ''key'', JStr (js ''abc''))])))"
  by (simp add: Vineapple_def authorize_def all_present_def all_absent_def and_member_def
      obj_get_def js_def)

text \<open>
  Claim C6, amended: \<open>authorize\<close> writes each of the three fields from the settings on
  its own and checks nothing. A field is present afterwards exactly when the settings
  carry it. So the three fields are all absent after settings that are missing or falsy,
  and all present after settings that carry all three.
\<close>

theorem authorize_copies_each_field:
  "truthy (key (authorize this settings)) = carries settings (js ''key'') \<and>
   truthy (userId (authorize this settings)) = carries settings (js ''userId'') \<and>
   truthy (username (authorize this settings)) = carries settings (js ''username'') \<and>
   (\<not> truthy settings \<longrightarrow> all_absent (authorize this settings)) \<and>
   (carries settings (js ''key'') \<and> carries settings (js ''userId'')
      \<and> carries settings (js ''username'')
    \<longrightarrow> all_present (authorize this settings))"
  by (cases settings)
     (auto simp: authorize_def truthy_and_member all_absent_def all_present_def and_member_def)

theorem authorize_copies_each_field_witness:
  "\<not> truthy JUndefined \<and>
   all_absent (authorize (Vineapple (JObj [(js ''key'', JStr (js ''abc''))])) JUndefined) \<and>
   all_present (authorize (Vineapple JNull)
     (JObj [(js ''key'', JStr (js ''abc'')), (js ''userId'', JStr (js ''12'')),
            (js ''username'', JStr (js ''ananas''))]))"
  using authorize_copies_each_field
          [of "Vineapple (JObj [(js ''key'', JStr (js ''abc''))])" JUndefined]
        authorize_copies_each_field
          [of "Vineapple JNull"
              "JObj [(js ''key'', JStr (js ''abc'')), (js ''userId'', JStr (js ''12'')),
                     (js ''username'', JStr (js ''ananas''))]"]
  by (simp add: obj_get_def js_def)

section \<open>Properties of login and logout\<close>

text \<open>A request on a descriptor that was just allocated does not throw.\<close>

lemma build_options_fresh:
  "\<exists>a w2. build_options literal this (Options (length (descriptors w)))
             (w\<lparr>descriptors := descriptors w @ [d]\<rparr>) = Inr (a, w2)"
  by (simp add: build_options_def descriptor_at_def new_descriptor_def new_object_def Let_def)

lemma request_fresh:
  "\<exists>p w2. request this (Options (length (descriptors w))) callback answer
             (w\<lparr>descriptors := descriptors w @ [d]\<rparr>) = (Inr p, w2)"
  using build_options_fresh [of header_defaults this w d]
  by (auto simp: request_def Let_def)

lemma request_lib_fresh:
  "\<exists>p w2. request_lib this (Options (length (descriptors w))) answer
             (w\<lparr>descriptors := descriptors w @ [d]\<rparr>) = (Inr p, w2)"
  using build_options_fresh [of header_defaults_lib this w d]
  by (auto simp: request_lib_def)

text \<open>
  With both arguments given, \<open>login\<close> is the continuation \<open>authorize\<close> on the promise of
  some request.
\<close>

lemma login_shape:
  assumes "text_of user \<noteq> []" "text_of password \<noteq> []"
  shows "\<exists>req w2. login sha256 this user password callback answer w =
           (Inr (fst (then_q req authorize_bound this),
                 drain callback (fst (then_q req authorize_bound this))),
            snd (then_q req authorize_bound this), w2)"
proof -
  obtain p w2 where
    "request this (Options (length (descriptors w))) None answer
       (w\<lparr>descriptors :=
            descriptors w @ [authenticate sha256 (text_of user) (text_of password)]\<rparr>)
     = (Inr p, w2)"
    using request_fresh by blast
  with assms show ?thesis
    by (intro exI [of _ "fst p"] exI [of _ w2])
       (simp add: login_def new_descriptor_def split: prod.splits)
qed

lemma login_lib_shape:
  assumes "text_of user \<noteq> []" "text_of password \<noteq> []"
  shows "\<exists>req w2. login_lib this user password answer w =
           (Inr (fst (then_q req authorize_bound_lib (initialize this))),
            snd (then_q req authorize_bound_lib (initialize this)), w2)"
proof -
  obtain p w2 where
    "request_lib (initialize this) (Options (length (descriptors w))) answer
       (w\<lparr>descriptors :=
            descriptors w @ [authenticate_lib (text_of user) (text_of password)]\<rparr>)
     = (Inr p, w2)"
    using request_lib_fresh by blast
  with assms show ?thesis
    by (intro exI [of _ p] exI [of _ w2])
       (simp add: login_lib_def new_descriptor_def Let_def split: prod.splits)
qed

lemma then_q_authorize_rejected:
  "then_q req authorize_bound this = (Rejected e, this') \<Longrightarrow> this' = this"
  by (cases req) (auto simp: then_q_def authorize_bound_def)

lemma then_q_authorize_lib_rejected:
  "then_q req authorize_bound_lib this = (Rejected e, this') \<Longrightarrow> this' = this"
  by (cases req) (auto simp: then_q_def authorize_bound_lib_def split: sum.splits)

text \<open>
  Claim C7: a login with the username or the password empty or missing throws at once,
  with a message that tells which of the two is missing (the username is checked first),
  and leaves the client and the store as they were; the store holds the calls of the
  transport, so none is made. This holds for \<open>login\<close> and for the snapshot's \<open>login_lib\<close>.
\<close>

theorem login_validates_before_transport:
  "(text_of user = [] \<longrightarrow>
      login sha256 this user password callback answer w =
        (Inl (JError (JStr (js ''Invalid credentials. Missing username.''))), this, w) \<and>
      login_lib this user password answer w =
        (Inl (JError (JStr (js ''Invalid credentials. Missing username.''))), this, w)) \<and>
   (text_of user \<noteq> [] \<and> text_of password = [] \<longrightarrow>
      login sha256 this user password callback answer w =
        (Inl (JError (JStr (js ''Invalid credentials. Missing password.''))), this, w) \<and>
      login_lib this user password answer w =
        (Inl (JError (JStr (js ''Invalid credentials. Missing password.''))), this, w)) \<and>
   js ''Invalid credentials. Missing username.'' \<noteq> js ''Invalid credentials. Missing password.''"
  by (simp add: login_def login_lib_def js_def)

theorem login_validates_before_transport_witness:
  "text_of (Some []) = [] \<and>
   login (\<lambda>s. s) sample_client (Some []) (Some (js ''pw'')) None (Some transport_down) empty_world =
     (Inl (JError (JStr (js ''Invalid credentials. Missing username.''))),
      sample_client, empty_world) \<and>
   text_of (Some (js ''ananas'')) \<noteq> [] \<and> text_of None = [] \<and>
   login_lib sample_client (Some (js ''ananas'')) None (Some transport_down) empty_world =
     (Inl (JError (JStr (js ''Invalid credentials. Missing password.''))),
      sample_client, empty_world) \<and>
   calls empty_world = []"
  using login_validates_before_transport
          [of "Some []" "\<lambda>s. s" sample_client "Some (js ''pw'')" None "Some transport_down"
              empty_world]
        login_validates_before_transport
          [of "Some (js ''ananas'')" "\<lambda>s. s" sample_client None None "Some transport_down"
              empty_world]
  by (simp add: text_of_def js_def empty_world_def)

text \<open>
  Claim C4, as stated: after a login that fails, the three fields are what they were
  before. It fails for the snapshot under lib, whose \<open>login_lib\<close> calls \<open>initialize\<close>
  before it sends the request: an authenticated client whose request is rejected is left
  with all three fields \<^verbatim>\<open>null\<close>.
\<close>

theorem login_lib_failure_clears_state:
  "fst (login_lib sample_client (Some (js ''ananas'')) (Some (js ''pw''))
          (Some transport_down) empty_world)
     = Inr (Rejected (JError (JStr (js ''ETIMEDOUT'')))) \<and>
   fst (snd (login_lib sample_client (Some (js ''ananas'')) (Some (js ''pw''))
          (Some transport_down) empty_world)) \<noteq> sample_client"
  by (simp add: login_lib_def request_lib_def sample_client_def empty_world_def transport_down_def text_of_def initialize_def
      authorize_bound_lib_def run_request js_def)

text \<open>
  Claim C4, amended: a failing \<open>login\<close> of the current client, whether it throws or its
  promise is rejected, leaves the three fields as they were. In the snapshot under lib a
  login that throws leaves them as they were, and a login whose promise is rejected
  leaves the client re-initialised.
\<close>

theorem login_failure_keeps_state:
  "(login sha256 this user password callback answer w = (r, this', w') \<and>
      ((\<exists>e. r = Inl e) \<or> (\<exists>e log. r = Inr (Rejected e, log))) \<longrightarrow> this' = this) \<and>
   (login_lib this user password answer w = (Inl e, this', w') \<longrightarrow> this' = this) \<and>
   (login_lib this user password answer w = (Inr (Rejected e), this', w') \<longrightarrow>
      this' = initialize this)"
proof (cases "text_of user = [] \<or> text_of password = []")
  case True
  then show ?thesis
    by (auto simp: login_def login_lib_def)
next
  case False
  then have u: "text_of user \<noteq> []" and p: "text_of password \<noteq> []" by auto
  obtain req w2 where l: "login sha256 this user password callback answer w =
           (Inr (fst (then_q req authorize_bound this),
                 drain callback (fst (then_q req authorize_bound this))),
            snd (then_q req authorize_bound this), w2)"
    using login_shape [OF u p] by blast
  obtain req' w2' where l': "login_lib this user password answer w =
           (Inr (fst (then_q req' authorize_bound_lib (initialize this))),
            snd (then_q req' authorize_bound_lib (initialize this)), w2')"
    using login_lib_shape [OF u p] by blast
  have a: "login sha256 this user password callback answer w = (r, this', w') \<and>
      ((\<exists>e. r = Inl e) \<or> (\<exists>e log. r = Inr (Rejected e, log))) \<longrightarrow> this' = this"
    using l then_q_authorize_rejected [of req this] by (auto simp: prod_eq_iff)
  have b: "login_lib this user password answer w = (Inr (Rejected e), this', w') \<longrightarrow>
      this' = initialize this"
    using l' then_q_authorize_lib_rejected [of req' "initialize this"]
    by (auto simp: prod_eq_iff)
  from a b l' show ?thesis by auto
qed

theorem login_failure_keeps_state_witness:
  "fst (login (\<lambda>s. s) sample_client (Some (js ''ananas'')) (Some (js ''pw'')) None
          (Some transport_down) empty_world)
     = Inr (Rejected (JError (JStr (js ''ETIMEDOUT''))), []) \<and>
   fst (snd (login (\<lambda>s. s) sample_client (Some (js ''ananas'')) (Some (js ''pw'')) None
          (Some transport_down) empty_world)) = sample_client"
proof -
  let ?run = "login (\<lambda>s. s) sample_client (Some (js ''ananas'')) (Some (js ''pw'')) None
                (Some transport_down) empty_world"
  have r: "fst ?run = Inr (Rejected (JError (JStr (js ''ETIMEDOUT''))), [])"
    by (simp add: login_def request_def sample_client_def empty_world_def transport_down_def text_of_def authorize_bound_def run_request js_def)
  obtain r' c' w' where l: "?run = (r', c', w')"
    by (cases ?run)
  with r have "r' = Inr (Rejected (JError (JStr (js ''ETIMEDOUT''))), [])" by simp
  with l login_failure_keeps_state
           [of "\<lambda>s. s" sample_client "Some (js ''ananas'')" "Some (js ''pw'')" None
               "Some transport_down" empty_world r' c' w']
  have "c' = sample_client" by blast
  with l r show ?thesis by simp
qed

text \<open>
  Claim C5 says that a logout whose request succeeds leaves all three fields cleared,
  whatever the payload of the response. The code hands the payload to \<open>authorize\<close>: on
  the payload below the logout succeeds and leaves the client authenticated, with the
  fields of the payload. (The snapshot's \<open>logout_lib\<close> calls \<open>initialize\<close>, which
  ignores the payload.)
\<close>

theorem logout_adopts_payload:
  \<open>logout sample_client None
     (Some \<lparr>error = JNull, response = 200,
            body = JStr (js ''{"data":{"key":"k2","userId":8,"username":"x"}}'')\<rparr>)
     empty_world
   = (Inr (Fulfilled \<lparr>key = JStr (js ''k2''), userId = JStr (js ''8''),
                      username = JStr (js ''x'')\<rparr>, []),
      \<lparr>key = JStr (js ''k2''), userId = JStr (js ''8''), username = JStr (js ''x'')\<rparr>,
      snd (snd (logout sample_client None None empty_world)))\<close>
  by (simp add: logout_def request_def sample_client_def empty_world_def deauthenticate_def authorize_bound_def
      authorize_def and_member_def run_request run_text)

end
